theory Spec2Isabelle
  imports Main "HOL-Library.Sublist"
begin

section \<open>JavaScript strings\<close>

text \<open>
  A JavaScript string is modelled as a \<^typ>\<open>string\<close>: a list of code units, each below
  256 (the Latin-1 range of UTF-16). Code units above 255 are not represented.
\<close>

definition code_unit :: "char \<Rightarrow> nat" where
  "code_unit c = of_char c"

text \<open>\<open>String.prototype.toLowerCase\<close>, one code unit at a time: in the Latin-1 range the
  letters with a lower-case partner are A to Z and U+00C0 to U+00DE without U+00D7, and
  the partner is 32 code units further.\<close>

definition lower_char :: "char \<Rightarrow> char" where
  "lower_char c =
     (let n = code_unit c
      in if (65 \<le> n \<and> n \<le> 90) \<or> (192 \<le> n \<and> n \<le> 222 \<and> n \<noteq> 215)
         then char_of (n + 32) else c)"

definition toLowerCase :: "string \<Rightarrow> string" where
  "toLowerCase s = map lower_char s"

text \<open>White space and line terminators of ECMAScript below 256: TAB, LF, VT, FF, CR,
  SPACE and NBSP. This is the class \<open>\s\<close> of a regular expression and what \<open>trim\<close>
  removes.\<close>

definition is_space :: "char \<Rightarrow> bool" where
  "is_space c = (code_unit c \<in> {9, 10, 11, 12, 13, 32, 160})"

definition is_digit :: "char \<Rightarrow> bool" where
  "is_digit c = (48 \<le> code_unit c \<and> code_unit c \<le> 57)"

definition trim :: "string \<Rightarrow> string" where
  "trim s = rev (dropWhile is_space (rev (dropWhile is_space s)))"

text \<open>\<open>s.includes(k)\<close>: some suffix of \<open>s\<close> starts with \<open>k\<close>.\<close>

fun js_includes :: "string \<Rightarrow> string \<Rightarrow> bool" where
  "js_includes [] k = (k = [])"
| "js_includes (x # xs) k = (prefix k (x # xs) \<or> js_includes xs k)"

text \<open>\<open>s.split(c)\<close> for a one-character separator: the pieces between the separators,
  empty pieces kept.\<close>

fun split_char :: "char \<Rightarrow> string \<Rightarrow> string list" where
  "split_char c [] = [[]]"
| "split_char c (x # xs) =
     (if x = c then [] # split_char c xs
      else (case split_char c xs of
              [] \<Rightarrow> [[x]]
            | l # ls \<Rightarrow> (x # l) # ls))"

definition LF :: char where
  "LF = char_of (10::nat)"

text \<open>\<open>text.split('\n').filter(line => line.trim())\<close>: the empty string is falsy.\<close>

definition nonblank_lines :: "string \<Rightarrow> string list" where
  "nonblank_lines text = filter (\<lambda>line. trim line \<noteq> []) (split_char LF text)"

section \<open>Regular expressions\<close>

text \<open>
  The regular expressions of the source are values of \<open>rx\<close>, run by a backtracking
  matcher that tries the alternatives in ECMAScript's order: the left branch of \<open>|\<close> first,
  a greedy quantifier with as many repetitions as possible first. \<open>Star\<close> and \<open>Plus\<close> repeat
  a character class, which is all the source's patterns repeat; \<open>Grp n\<close> is the \<open>n\<close>-th
  capturing group and a non-capturing group is the expression itself.
\<close>

datatype rx =
    Eps
  | Bol
  | Atom "char \<Rightarrow> bool"
  | Seq rx rx
  | Alt rx rx
  | Opt rx
  | Star "char \<Rightarrow> bool"
  | Plus "char \<Rightarrow> bool"
  | Grp nat rx

text \<open>The matcher works on a stack of what is left to match; \<open>Close n s0\<close> ends group
  \<open>n\<close>, which started when the input left was \<open>s0\<close>.\<close>

datatype item = R rx | Close nat string

type_synonym captures = "nat \<rightharpoonup> string"

fun rx_weight :: "rx \<Rightarrow> nat" where
  "rx_weight Eps = 1"
| "rx_weight Bol = 1"
| "rx_weight (Atom p) = 1"
| "rx_weight (Seq a b) = Suc (rx_weight a + rx_weight b)"
| "rx_weight (Alt a b) = Suc (rx_weight a + rx_weight b)"
| "rx_weight (Opt a) = Suc (rx_weight a)"
| "rx_weight (Star p) = 1"
| "rx_weight (Plus p) = 3"
| "rx_weight (Grp n a) = Suc (Suc (rx_weight a))"

fun item_weight :: "item \<Rightarrow> nat" where
  "item_weight (R r) = rx_weight r"
| "item_weight (Close n s) = 1"

text \<open>\<open>run k i s c\<close>: match the stack \<open>k\<close> against the input \<open>s\<close>, which starts at index
  \<open>i\<close> of the whole string, with the captures \<open>c\<close> so far. The result is the index where
  the match ends and the captures, or \<open>None\<close> when every alternative fails.\<close>

function run :: "item list \<Rightarrow> nat \<Rightarrow> string \<Rightarrow> captures \<Rightarrow> (nat \<times> captures) option" where
  "run [] i s c = Some (i, c)"
| "run (R Eps # k) i s c = run k i s c"
| "run (R Bol # k) i s c = (if i = 0 then run k i s c else None)"
| "run (R (Atom p) # k) i [] c = None"
| "run (R (Atom p) # k) i (x # xs) c = (if p x then run k (Suc i) xs c else None)"
| "run (R (Seq a b) # k) i s c = run (R a # R b # k) i s c"
| "run (R (Alt a b) # k) i s c =
     (case run (R a # k) i s c of Some r \<Rightarrow> Some r | None \<Rightarrow> run (R b # k) i s c)"
| "run (R (Opt a) # k) i s c =
     (case run (R a # k) i s c of Some r \<Rightarrow> Some r | None \<Rightarrow> run k i s c)"
| "run (R (Star p) # k) i [] c = run k i [] c"
| "run (R (Star p) # k) i (x # xs) c =
     (if p x
      then (case run (R (Star p) # k) (Suc i) xs c of
              Some r \<Rightarrow> Some r
            | None \<Rightarrow> run k i (x # xs) c)
      else run k i (x # xs) c)"
| "run (R (Plus p) # k) i s c = run (R (Atom p) # R (Star p) # k) i s c"
| "run (R (Grp n a) # k) i s c = run (R a # Close n s # k) i s c"
| "run (Close n s0 # k) i s c = run k i s (c(n \<mapsto> take (length s0 - length s) s0))"
  by pat_completeness auto
termination
  by (relation "measures [\<lambda>(k, i, s, c). sum_list (map item_weight k),
                          \<lambda>(k, i, s, c). length s]") auto

record rx_match =
  m_index :: nat
  m_end :: nat
  m_groups :: captures

text \<open>\<open>RegExp.prototype.exec\<close> without the global flag: the match at the leftmost index
  where there is one. \<open>rx_exec r i s\<close> searches \<open>s\<close>, which starts at index \<open>i\<close>.\<close>

fun rx_exec :: "rx \<Rightarrow> nat \<Rightarrow> string \<Rightarrow> rx_match option" where
  "rx_exec r i [] =
     (case run [R r] i [] Map.empty of
        Some (j, c) \<Rightarrow> Some \<lparr>m_index = i, m_end = j, m_groups = c\<rparr>
      | None \<Rightarrow> None)"
| "rx_exec r i (x # xs) =
     (case run [R r] i (x # xs) Map.empty of
        Some (j, c) \<Rightarrow> Some \<lparr>m_index = i, m_end = j, m_groups = c\<rparr>
      | None \<Rightarrow> rx_exec r (Suc i) xs)"

text \<open>\<open>s.match(r)\<close> for a pattern without the global flag; \<open>None\<close> is \<open>null\<close>.\<close>

definition js_match :: "string \<Rightarrow> rx \<Rightarrow> rx_match option" where
  "js_match s r = rx_exec r 0 s"

text \<open>\<open>s.replace(r, '')\<close> for a pattern without the global flag: the first match is cut
  out; a string without a match is returned as it is.\<close>

definition replace_first :: "string \<Rightarrow> rx \<Rightarrow> string" where
  "replace_first s r =
     (case rx_exec r 0 s of
        None \<Rightarrow> s
      | Some m \<Rightarrow> take (m_index m) s @ drop (m_end m) s)"

text \<open>A letter of a pattern with the flag \<open>i\<close>.\<close>

definition ci :: "char \<Rightarrow> char \<Rightarrow> bool" where
  "ci a x = (lower_char x = lower_char a)"

fun lit_ci :: "string \<Rightarrow> rx" where
  "lit_ci [] = Eps"
| "lit_ci [a] = Atom (ci a)"
| "lit_ci (a # as) = Seq (Atom (ci a)) (lit_ci as)"

lemma run_index_le: "run k i s c = Some (e, c') \<Longrightarrow> i \<le> e"
  by (induction k i s c rule: run.induct) (auto split: if_splits option.splits)

text \<open>\<open>s.split(r)\<close> for a pattern \<open>r\<close> without capturing groups, after the algorithm of
  ECMAScript: \<open>q\<close> runs over the string; a match at \<open>q\<close> that ends at \<open>e\<close> closes the piece
  that began at \<open>p\<close>, unless \<open>e = p\<close>. \<open>acc\<close> holds the characters from \<open>p\<close> to \<open>q\<close>, last
  one first, so \<open>p = q - length acc\<close>.\<close>

function split_go :: "rx \<Rightarrow> string \<Rightarrow> nat \<Rightarrow> string \<Rightarrow> string list" where
  "split_go r acc q [] = [rev acc]"
| "split_go r acc q (x # xs) =
     (case run [R r] q (x # xs) Map.empty of
        None \<Rightarrow> split_go r (x # acc) (Suc q) xs
      | Some (e, c) \<Rightarrow>
          if e = q - length acc then split_go r (x # acc) (Suc q) xs
          else rev acc # split_go r [] e (drop (e - q) (x # xs)))"
  by pat_completeness auto
termination
proof (relation "measures [\<lambda>(r, acc, q, s). length s, \<lambda>(r, acc, q, s). length acc]", goal_cases)
  case 1
  show ?case by simp
next
  case (2 r acc q x xs)
  then show ?case by simp
next
  case (3 r acc q x xs y e c)
  then show ?case by simp
next
  case (4 r acc q x xs y e c)
  then have "q \<le> e" using run_index_le by metis
  with 4 show ?case by (cases acc) auto
qed

definition split_rx :: "string \<Rightarrow> rx \<Rightarrow> string list" where
  "split_rx s r =
     (if s = [] then (case run [R r] 0 [] Map.empty of Some m \<Rightarrow> [] | None \<Rightarrow> [[]])
      else split_go r [] 0 s)"

section \<open>The field parser of the OCR processor\<close>

text \<open>
  \<open>extractPrescriptionData\<close> of \<open>utils/ocrProcessor.js\<close>. A method call on \<open>undefined\<close>
  throws a \<open>TypeError\<close>; the parser's result is a sum, with the error on the left.
\<close>

datatype js_error = TypeError

text \<open>\<open>x.toLowerCase()\<close> where \<open>x\<close> is a capture, \<open>undefined\<close> when its group took no part
  in the match.\<close>

definition call_toLowerCase :: "string option \<Rightarrow> js_error + string" where
  "call_toLowerCase x = (case x of None \<Rightarrow> Inl TypeError | Some s \<Rightarrow> Inr (toLowerCase s))"

text \<open>A capture inside a template literal.\<close>

definition template :: "string option \<Rightarrow> string" where
  "template x = (case x of None \<Rightarrow> ''undefined'' | Some s \<Rightarrow> s)"

text \<open>\<open>/^[^:]*:?\s*/\<close>\<close>

definition label_rx :: rx where
  "label_rx =
     Seq Bol (Seq (Star (\<lambda>x. x \<noteq> CHR '':''))
       (Seq (Opt (Atom (\<lambda>x. x = CHR '':''))) (Star is_space)))"

text \<open>\<open>keywords.some(keyword => line.toLowerCase().includes(keyword))\<close>; the inner loop
  of \<open>extractField\<close>, which returns at the first keyword found, asks the same.\<close>

definition has_keyword :: "string list \<Rightarrow> string \<Rightarrow> bool" where
  "has_keyword keywords line =
     list_ex (\<lambda>keyword. js_includes (toLowerCase line) keyword) keywords"

text \<open>\<open>extractField\<close>: the first line whose lower-case form includes a keyword decides;
  \<open>None\<close> is the \<open>null\<close> returned when no line does.\<close>

fun extractField :: "string list \<Rightarrow> string list \<Rightarrow> string option" where
  "extractField [] keywords = None"
| "extractField (line # lines) keywords =
     (if has_keyword keywords line
      then Some (trim (replace_first line label_rx))
      else extractField lines keywords)"

text \<open>\<open>/(\d+(?:\.\d+)?)\s*(mg|ml|g|mcg|iu)/i\<close>\<close>

definition dosage_rx :: rx where
  "dosage_rx =
     Seq (Grp 1 (Seq (Plus is_digit) (Opt (Seq (Atom (\<lambda>x. x = CHR ''.'')) (Plus is_digit)))))
       (Seq (Star is_space)
         (Grp 2 (Alt (lit_ci ''mg'') (Alt (lit_ci ''ml'') (Alt (lit_ci ''g'')
                  (Alt (lit_ci ''mcg'') (lit_ci ''iu'')))))))"

definition extractDosage :: "string \<Rightarrow> js_error + string" where
  "extractDosage line =
     (case js_match line dosage_rx of
        None \<Rightarrow> Inr []
      | Some dosageMatch \<Rightarrow>
          (case call_toLowerCase (m_groups dosageMatch 2) of
             Inl e \<Rightarrow> Inl e
           | Inr unit \<Rightarrow> Inr (template (m_groups dosageMatch 1) @ unit)))"

text \<open>The patterns of \<open>extractFrequency\<close>, in the order of the source:
  \<open>/(\d+)\s*times?\s*(?:a\s*)?day/i\<close>, \<open>/(\d+)\s*times?\s*daily/i\<close>, \<open>/once\s*daily/i\<close>,
  \<open>/twice\s*daily/i\<close>, \<open>/thrice\s*daily/i\<close>, \<open>/bid/i\<close>, \<open>/tid/i\<close>, \<open>/qid/i\<close>.\<close>

definition frequencyPatterns :: "rx list" where
  "frequencyPatterns =
     [Seq (Grp 1 (Plus is_digit)) (Seq (Star is_space) (Seq (lit_ci ''time'')
        (Seq (Opt (Atom (ci CHR ''s''))) (Seq (Star is_space)
        (Seq (Opt (Seq (Atom (ci CHR ''a'')) (Star is_space))) (lit_ci ''day'')))))),
      Seq (Grp 1 (Plus is_digit)) (Seq (Star is_space) (Seq (lit_ci ''time'')
        (Seq (Opt (Atom (ci CHR ''s''))) (Seq (Star is_space) (lit_ci ''daily''))))),
      Seq (lit_ci ''once'') (Seq (Star is_space) (lit_ci ''daily'')),
      Seq (lit_ci ''twice'') (Seq (Star is_space) (lit_ci ''daily'')),
      Seq (lit_ci ''thrice'') (Seq (Star is_space) (lit_ci ''daily'')),
      lit_ci ''bid'',
      lit_ci ''tid'',
      lit_ci ''qid'']"

text \<open>The loop over the patterns. A pattern that matches returns through the first of
  the seven tests that holds (\<open>match[1]\<close> is truthy when it is a non-empty string); when
  none holds, the loop goes on to the next pattern.\<close>

fun frequency_loop :: "rx list \<Rightarrow> string \<Rightarrow> string" where
  "frequency_loop [] line = []"
| "frequency_loop (pattern # patterns) line =
     (case js_match line pattern of
        None \<Rightarrow> frequency_loop patterns line
      | Some m \<Rightarrow>
          if m_groups m 1 \<noteq> None \<and> m_groups m 1 \<noteq> Some []
            then template (m_groups m 1) @ '' times daily''
          else if js_includes (toLowerCase line) ''once'' then ''Once daily''
          else if js_includes (toLowerCase line) ''twice'' then ''Twice daily''
          else if js_includes (toLowerCase line) ''thrice'' then ''Three times daily''
          else if js_includes (toLowerCase line) ''bid'' then ''Twice daily''
          else if js_includes (toLowerCase line) ''tid'' then ''Three times daily''
          else if js_includes (toLowerCase line) ''qid'' then ''Four times daily''
          else frequency_loop patterns line)"

definition extractFrequency :: "string \<Rightarrow> string" where
  "extractFrequency line = frequency_loop frequencyPatterns line"

text \<open>\<open>/(?:for\s*)?(\d+)\s*(days?|weeks?|months?)/i\<close>\<close>

definition duration_rx :: rx where
  "duration_rx =
     Seq (Opt (Seq (lit_ci ''for'') (Star is_space)))
       (Seq (Grp 1 (Plus is_digit))
         (Seq (Star is_space)
           (Grp 2 (Alt (Seq (lit_ci ''day'') (Opt (Atom (ci CHR ''s''))))
                  (Alt (Seq (lit_ci ''week'') (Opt (Atom (ci CHR ''s''))))
                       (Seq (lit_ci ''month'') (Opt (Atom (ci CHR ''s'')))))))))"

definition extractDuration :: "string \<Rightarrow> js_error + string" where
  "extractDuration line =
     (case js_match line duration_rx of
        None \<Rightarrow> Inr []
      | Some durationMatch \<Rightarrow>
          (case call_toLowerCase (m_groups durationMatch 2) of
             Inl e \<Rightarrow> Inl e
           | Inr unit \<Rightarrow> Inr (template (m_groups durationMatch 1) @ '' '' @ unit)))"

record parsed_medication =
  pm_name :: string
  pm_dosage :: string
  pm_frequency :: string
  pm_duration :: string

definition medicationKeywords :: "string list" where
  "medicationKeywords =
     [''tablet'', ''capsule'', ''syrup'', ''mg'', ''ml'', ''dose'', ''tab'', ''cap'']"

text \<open>The object built for a line that passed the keyword test: \<open>parts\<close> is
  \<open>line.split(/\s+/)\<close> and the name is \<open>parts[0] || ''\<close>.\<close>

definition medication_of_line :: "string \<Rightarrow> js_error + parsed_medication" where
  "medication_of_line line =
     (let parts = split_rx line (Plus is_space);
          name = (case parts of [] \<Rightarrow> [] | part # rest \<Rightarrow> part)
      in case extractDosage line of
           Inl e \<Rightarrow> Inl e
         | Inr dos \<Rightarrow>
             (let freq = extractFrequency line
              in case extractDuration line of
                   Inl e \<Rightarrow> Inl e
                 | Inr dur \<Rightarrow>
                     Inr \<lparr>pm_name = name, pm_dosage = dos,
                          pm_frequency = freq, pm_duration = dur\<rparr>))"

text \<open>\<open>extractMedications\<close>: \<open>acc\<close> is the array \<open>medications\<close>; an object is pushed only
  when its name is not the empty string.\<close>

fun medications_loop ::
  "string list \<Rightarrow> parsed_medication list \<Rightarrow> js_error + parsed_medication list" where
  "medications_loop [] acc = Inr acc"
| "medications_loop (line # lines) acc =
     (if has_keyword medicationKeywords line
      then (case medication_of_line line of
              Inl e \<Rightarrow> Inl e
            | Inr medication \<Rightarrow>
                if pm_name medication \<noteq> []
                then medications_loop lines (acc @ [medication])
                else medications_loop lines acc)
      else medications_loop lines acc)"

definition extractMedications :: "string list \<Rightarrow> js_error + parsed_medication list" where
  "extractMedications lines = medications_loop lines []"

record prescription_data =
  pd_doctorName :: "string option"
  pd_patientName :: "string option"
  pd_date :: "string option"
  pd_diagnosis :: "string option"
  pd_medications :: "parsed_medication list"
  pd_instructions :: "string option"

definition doctor_keywords :: "string list" where
  "doctor_keywords = [''dr'', ''doctor'', ''physician'', ''md'']"

definition patient_keywords :: "string list" where
  "patient_keywords = [''patient'', ''name'', ''mr'', ''mrs'', ''ms'']"

definition date_keywords :: "string list" where
  "date_keywords = [''date'', ''dated'']"

definition diagnosis_keywords :: "string list" where
  "diagnosis_keywords = [''diagnosis'', ''condition'', ''complaint'']"

definition instructions_keywords :: "string list" where
  "instructions_keywords = [''instructions'', ''directions'', ''advice'', ''note'']"

text \<open>The fields of the returned object are evaluated in the order of the source.\<close>

definition extractPrescriptionData :: "string \<Rightarrow> js_error + prescription_data" where
  "extractPrescriptionData text =
     (let lines = nonblank_lines text;
          doc = extractField lines doctor_keywords;
          pat = extractField lines patient_keywords;
          dat = extractField lines date_keywords;
          dia = extractField lines diagnosis_keywords
      in case extractMedications lines of
           Inl e \<Rightarrow> Inl e
         | Inr meds \<Rightarrow>
             Inr \<lparr>pd_doctorName = doc, pd_patientName = pat, pd_date = dat,
                  pd_diagnosis = dia, pd_medications = meds,
                  pd_instructions = extractField lines instructions_keywords\<rparr>)"

section \<open>The parser of the upload page\<close>

text \<open>
  \<open>parsePrescriptionText\<close> of \<open>pages/PrescriptionUpload.jsx\<close>, which runs in the browser on
  the text of the page's own OCR. Its \<open>extractField\<close> and \<open>extractMedications\<close> have the
  names of the OCR processor's; here they carry the prefix \<open>page_\<close>.
\<close>

fun page_extractField :: "string list \<Rightarrow> string list \<Rightarrow> string" where
  "page_extractField [] keywords = ''Not detected''"
| "page_extractField (line # lines) keywords =
     (if has_keyword keywords line
      then trim (replace_first line label_rx)
      else page_extractField lines keywords)"

definition page_medicationKeywords :: "string list" where
  "page_medicationKeywords = [''tablet'', ''capsule'', ''syrup'', ''mg'', ''ml'', ''dose'']"

fun page_medications_loop :: "string list \<Rightarrow> string list \<Rightarrow> string list" where
  "page_medications_loop [] acc = acc"
| "page_medications_loop (line # lines) acc =
     (if has_keyword page_medicationKeywords line
      then page_medications_loop lines (acc @ [trim line])
      else page_medications_loop lines acc)"

definition page_extractMedications :: "string list \<Rightarrow> string list" where
  "page_extractMedications lines =
     (let medications = page_medications_loop lines []
      in if length medications > 0 then medications else [''No medications detected''])"

record page_data =
  pg_doctorName :: string
  pg_patientName :: string
  pg_date :: string
  pg_medications :: "string list"
  pg_diagnosis :: string
  pg_instructions :: string

definition parsePrescriptionText :: "string \<Rightarrow> page_data" where
  "parsePrescriptionText text =
     (let lines = nonblank_lines text
      in \<lparr>pg_doctorName = page_extractField lines [''dr'', ''doctor'', ''physician''],
          pg_patientName = page_extractField lines [''patient'', ''name''],
          pg_date = page_extractField lines [''date''],
          pg_medications = page_extractMedications lines,
          pg_diagnosis = page_extractField lines [''diagnosis'', ''condition''],
          pg_instructions = page_extractField lines [''instructions'', ''directions'']\<rparr>)"

section \<open>Dates\<close>

text \<open>
  A \<open>Date\<close> holds a time value, the milliseconds since 1 January 1970 UTC, or is
  invalid (the time value \<open>NaN\<close>). The functions below are the abstract operations of
  ECMAScript on time values. The offset of local time is the function \<open>LocalTZA\<close> of the
  host: \<open>tz t True\<close> is the offset in force at the UTC time \<open>t\<close>, \<open>tz t False\<close> the offset
  in force at the local time \<open>t\<close>. With daylight saving it changes during the year.
\<close>

datatype jsdate = Date int | InvalidDate

definition msPerDay :: int where
  "msPerDay = 86400000"

definition Day :: "int \<Rightarrow> int" where
  "Day t = t div msPerDay"

definition TimeWithinDay :: "int \<Rightarrow> int" where
  "TimeWithinDay t = t mod msPerDay"

definition InLeapYear :: "int \<Rightarrow> bool" where
  "InLeapYear y = (y mod 4 = 0 \<and> (y mod 100 \<noteq> 0 \<or> y mod 400 = 0))"

definition DaysInYear :: "int \<Rightarrow> int" where
  "DaysInYear y = (if InLeapYear y then 366 else 365)"

definition DayFromYear :: "int \<Rightarrow> int" where
  "DayFromYear y =
     365 * (y - 1970) + (y - 1969) div 4 - (y - 1901) div 100 + (y - 1601) div 400"

text \<open>A year later starts as many days later as the year has; the search below
  terminates by this.\<close>

lemma step_div:
  fixes x :: int
  assumes "1 < n"
  shows "(x + 1) div n = x div n + (if (x + 1) mod n = 0 then 1 else 0)"
proof -
  have m: "0 \<le> x mod n" "x mod n < n" using assms by simp_all
  have a: "(x + 1) div n = x div n + 1 div n + (x mod n + 1 mod n) div n"
    by (rule div_add1_eq)
  have b: "(1::int) div n = 0" "(1::int) mod n = 1" using assms by simp_all
  have c: "(x + 1) mod n = (x mod n + 1) mod n"
    by (simp add: mod_add_left_eq)
  show ?thesis
  proof (cases "x mod n + 1 = n")
    case True
    then have "(x mod n + 1) div n = 1" "(x + 1) mod n = 0" using assms c by simp_all
    then show ?thesis using a b by simp
  next
    case False
    with m have lt: "x mod n + 1 < n" by simp
    then have "(x mod n + 1) div n = 0" using m by simp
    moreover have "(x + 1) mod n = x mod n + 1" using c lt m by simp
    ultimately show ?thesis using a b m by simp
  qed
qed

lemma mod4_shift: "(y - 1968) mod 4 = (y::int) mod 4"
proof -
  have "y - 1968 = y + (-492) * 4" by simp
  then show ?thesis by (simp only: mod_mult_self1 mod_mult_self2)
qed

lemma mod100_shift: "(y - 1900) mod 100 = (y::int) mod 100"
proof -
  have "y - 1900 = y + (-19) * 100" by simp
  then show ?thesis by (simp only: mod_mult_self1 mod_mult_self2)
qed

lemma mod400_shift: "(y - 1600) mod 400 = (y::int) mod 400"
proof -
  have "y - 1600 = y + (-4) * 400" by simp
  then show ?thesis by (simp only: mod_mult_self1 mod_mult_self2)
qed

lemma div4_step: "(y - 1968) div 4 = (y - 1969) div 4 + (if (y::int) mod 4 = 0 then 1 else 0)"
proof -
  have n: "y - 1969 + 1 = y - 1968" by simp
  have l: "(1::int) < 4" by simp
  show ?thesis using step_div[OF l, of "y - 1969"] unfolding n mod4_shift .
qed

lemma div100_step: "(y - 1900) div 100 = (y - 1901) div 100 + (if (y::int) mod 100 = 0 then 1 else 0)"
proof -
  have n: "y - 1901 + 1 = y - 1900" by simp
  have l: "(1::int) < 100" by simp
  show ?thesis using step_div[OF l, of "y - 1901"] unfolding n mod100_shift .
qed

lemma div400_step: "(y - 1600) div 400 = (y - 1601) div 400 + (if (y::int) mod 400 = 0 then 1 else 0)"
proof -
  have n: "y - 1601 + 1 = y - 1600" by simp
  have l: "(1::int) < 400" by simp
  show ?thesis using step_div[OF l, of "y - 1601"] unfolding n mod400_shift .
qed

lemma mod400_100: "(y::int) mod 400 = 0 \<Longrightarrow> y mod 100 = 0"
proof -
  assume a: "y mod 400 = 0"
  have "y mod 100 = y mod 400 mod 100" by (simp add: mod_mod_cancel)
  with a show ?thesis by simp
qed

lemma mod100_4: "(y::int) mod 100 = 0 \<Longrightarrow> y mod 4 = 0"
proof -
  assume a: "y mod 100 = 0"
  have "y mod 4 = y mod 100 mod 4" by (simp add: mod_mod_cancel)
  with a show ?thesis by simp
qed

lemma year_step_core:
  fixes a b c :: int
  assumes "A = a + (if p then 1 else 0)" "B = b + (if q then 1 else 0)"
    "C = c + (if r then 1 else 0)" "r \<Longrightarrow> q" "q \<Longrightarrow> p"
  shows "365 * (y + 1 - 1970) + A - B + C =
         365 * (y - 1970) + a - b + c + (if p \<and> (\<not> q \<or> r) then 366 else 365)"
proof -
  have "365 * (y + 1 - 1970) = 365 * (y - 1970) + 365" by simp
  moreover have "(if p then (1::int) else 0) - (if q then 1 else 0) + (if r then 1 else 0)
      = (if p \<and> (\<not> q \<or> r) then 1 else 0)"
    using assms(4,5) by (cases p; cases q; cases r) simp_all
  ultimately show ?thesis unfolding assms(1,2,3)
    by (cases p; cases q; cases r) (use assms(4,5) in simp_all)
qed

lemma DayFromYear_Suc: "DayFromYear (y + 1) = DayFromYear y + DaysInYear y"
proof -
  have n: "y + 1 - 1969 = y - 1968" "y + 1 - 1901 = y - 1900" "y + 1 - 1601 = y - 1600"
    by simp_all
  show ?thesis
    unfolding DayFromYear_def DaysInYear_def InLeapYear_def n
    by (rule year_step_core[OF div4_step div100_step div400_step mod400_100 mod100_4])
qed

text \<open>\<open>YearFromTime\<close> is the largest year that starts at or before the day: the search
  goes up from a year that starts early enough.\<close>

function year_up :: "int \<Rightarrow> int \<Rightarrow> int" where
  "year_up d y = (if DayFromYear (y + 1) \<le> d then year_up d (y + 1) else y)"
  by pat_completeness auto
termination
proof (relation "measure (\<lambda>(d, y). nat (d - DayFromYear (y + 1) + 366))", goal_cases)
  case 1
  show ?case by simp
next
  case (2 d y)
  have "DayFromYear (y + 1 + 1) = DayFromYear (y + 1) + DaysInYear (y + 1)"
    by (rule DayFromYear_Suc)
  moreover have "365 \<le> DaysInYear (y + 1)" by (simp add: DaysInYear_def)
  ultimately show ?case using 2 by simp
qed

definition YearFromTime :: "int \<Rightarrow> int" where
  "YearFromTime t =
     (let d = Day t in year_up d (1970 + (if 0 \<le> d then d div 366 else d div 365)))"

definition DayWithinYear :: "int \<Rightarrow> int" where
  "DayWithinYear t = Day t - DayFromYear (YearFromTime t)"

text \<open>The day of the year on which month \<open>m\<close> (0 to 11) starts.\<close>

definition month_start :: "int \<Rightarrow> bool \<Rightarrow> int" where
  "month_start m leap =
     [0, 31, 59, 90, 120, 151, 181, 212, 243, 273, 304, 334] ! nat m
       + (if leap \<and> 2 \<le> m then 1 else 0)"

definition MonthFromTime :: "int \<Rightarrow> int" where
  "MonthFromTime t =
     (let dy = DayWithinYear t; l = (if InLeapYear (YearFromTime t) then 1 else 0)
      in if dy < 31 then 0
         else if dy < 59 + l then 1
         else if dy < 90 + l then 2
         else if dy < 120 + l then 3
         else if dy < 151 + l then 4
         else if dy < 181 + l then 5
         else if dy < 212 + l then 6
         else if dy < 243 + l then 7
         else if dy < 273 + l then 8
         else if dy < 304 + l then 9
         else if dy < 334 + l then 10
         else 11)"

definition DateFromTime :: "int \<Rightarrow> int" where
  "DateFromTime t =
     DayWithinYear t - month_start (MonthFromTime t) (InLeapYear (YearFromTime t)) + 1"

definition MakeDay :: "int \<Rightarrow> int \<Rightarrow> int \<Rightarrow> int" where
  "MakeDay year month date =
     (let ym = year + month div 12; mn = month mod 12
      in DayFromYear ym + month_start mn (InLeapYear ym) + date - 1)"

definition MakeDate :: "int \<Rightarrow> int \<Rightarrow> int" where
  "MakeDate day time = day * msPerDay + time"

definition TimeClip :: "int \<Rightarrow> jsdate" where
  "TimeClip t = (if \<bar>t\<bar> \<le> 8640000000000000 then Date t else InvalidDate)"

type_synonym tz = "int \<Rightarrow> bool \<Rightarrow> int"

definition LocalTime :: "tz \<Rightarrow> int \<Rightarrow> int" where
  "LocalTime z t = t + z t True"

definition UTC :: "tz \<Rightarrow> int \<Rightarrow> int" where
  "UTC z t = t - z t False"

text \<open>\<open>getFullYear\<close>; \<open>None\<close> is \<open>NaN\<close>.\<close>

definition getFullYear :: "tz \<Rightarrow> jsdate \<Rightarrow> int option" where
  "getFullYear z d =
     (case d of Date t \<Rightarrow> Some (YearFromTime (LocalTime z t)) | InvalidDate \<Rightarrow> None)"

text \<open>\<open>setFullYear(year)\<close>: the new value of the date. An invalid date counts as local
  time 0; the year \<open>NaN\<close> gives an invalid date.\<close>

definition setFullYear :: "tz \<Rightarrow> jsdate \<Rightarrow> int option \<Rightarrow> jsdate" where
  "setFullYear z d year =
     (case year of
        None \<Rightarrow> InvalidDate
      | Some y \<Rightarrow>
          (let t = (case d of Date t \<Rightarrow> LocalTime z t | InvalidDate \<Rightarrow> 0);
               newDate = MakeDay y (MonthFromTime t) (DateFromTime t)
           in TimeClip (UTC z (MakeDate newDate (TimeWithinDay t)))))"

text \<open>\<open>d.setFullYear(d.getFullYear() + 1)\<close> on a copy of the date.\<close>

definition plus_one_year :: "tz \<Rightarrow> jsdate \<Rightarrow> jsdate" where
  "plus_one_year z d = setFullYear z d (map_option (\<lambda>y. y + 1) (getFullYear z d))"

section \<open>The prescription model\<close>

text \<open>
  The schema of \<open>models/Prescription.js\<close>. Identifiers are strings. The fields that the
  operations below only copy (the doctor's phone, email and clinic, diagnosis, symptoms,
  allergies, instructions, notes, priority) are left out.
\<close>

type_synonym oid = string

record medication =
  med_name :: string
  dosage :: string
  frequency :: string
  duration :: string
  med_instructions :: "string option"
  quantity :: int
  refills :: int
  med_product :: "oid option"

datatype status =
    PendingUpload | Uploaded | Processing | PendingVerification
  | Verified | Rejected | Expired | Fulfilled

record image =
  url :: string
  publicId :: string
  originalName :: string
  img_size :: nat
  mimeType :: string

record verification =
  isVerified :: bool
  verifiedBy :: "oid option"
  verifiedAt :: "int option"
  verificationNotes :: "string option"
  rejectionReason :: "string option"

record prescription =
  prescriptionNumber :: "string option"
  patient :: oid
  doctor_name :: string
  doctor_license :: string
  medications :: "medication list"
  images :: "image list"
  extractedText :: "string option"
  ocrConfidence :: "int option"
  pstatus :: status
  verificationStatus :: verification
  prescriptionDate :: "jsdate option"
  expiryDate :: "jsdate option"
  refillsUsed :: int
  orders :: "oid list"

text \<open>The virtual \<open>remainingRefills\<close>:
  \<open>Math.max(0, this.medications.reduce((total, med) => total + med.refills, 0) - this.refillsUsed)\<close>.
  \<open>reduce\<close> runs from the left with the accumulator first. The numbers are modelled as
  integers.\<close>

definition remainingRefills :: "prescription \<Rightarrow> int" where
  "remainingRefills p =
     max 0 (foldl (\<lambda>total med. total + refills med) 0 (medications p) - refillsUsed p)"

text \<open>What an operation reads from outside: the OCR engine behind \<open>processOCR\<close> (\<open>None\<close>
  when it throws), the offset of local time, the prescription number that
  \<open>Date.now()\<close> and \<open>Math.random()\<close> would make, the identifier of a new document and the
  current time.\<close>

record env =
  ocr :: "string \<Rightarrow> (string \<times> int) option"
  localTZA :: tz
  generated_number :: string
  new_id :: oid
  now :: int

text \<open>What reaches \<open>next\<close>: \<open>new AppError(message, statusCode)\<close> built by a controller, or
  the \<open>ValidationError\<close> that Mongoose throws when a document fails the validators of its
  schema, with the messages of the paths that failed; \<open>asyncHandler\<close> passes a thrown
  error on. The class \<open>AppError\<close> is declared in \<open>utils/appError.js\<close>, which is not among
  the sources; an \<open>AppError\<close> is the two arguments of its constructor, the message and the
  HTTP status code, as in \<open>new AppError('Prescription not found', 404)\<close>.\<close>

datatype app_error = AppError string nat | ValidationError "string list"

text \<open>The validators of \<open>medicationSchema\<close>: \<open>required\<close> (a string is required to be
  non-empty) and \<open>min\<close>.\<close>

definition validate_medication :: "medication \<Rightarrow> string list" where
  "validate_medication m =
     (if med_name m = [] then [''Medication name is required''] else []) @
     (if dosage m = [] then [''Dosage is required''] else []) @
     (if frequency m = [] then [''Frequency is required''] else []) @
     (if duration m = [] then [''Duration is required''] else []) @
     (if quantity m < 1 then [''Quantity must be at least 1''] else []) @
     (if refills m < 0 then [''Refills cannot be negative''] else [])"

text \<open>A date path: \<open>required\<close>, and the cast to a date, which an invalid \<open>Date\<close> fails
  (the message of the cast error is shortened).\<close>

definition validate_date :: "string \<Rightarrow> jsdate option \<Rightarrow> string list" where
  "validate_date required_message d =
     (case d of
        None \<Rightarrow> [required_message]
      | Some InvalidDate \<Rightarrow> [''Cast to date failed'']
      | Some (Date t) \<Rightarrow> [])"

text \<open>The validators of \<open>prescriptionSchema\<close>, for the paths of the record, in the order
  of the schema; the result is the messages of the paths that fail. The patient of a
  record and the quantity of a medication are always there, so their \<open>required\<close> cannot
  fail. The unique index on the prescription number is not modelled.\<close>

definition validate :: "prescription \<Rightarrow> string list" where
  "validate p =
     (if prescriptionNumber p = None \<or> prescriptionNumber p = Some []
      then [''Prescription number is required''] else []) @
     (if doctor_name p = [] then [''Doctor name is required''] else []) @
     (if doctor_license p = [] then [''Doctor license number is required''] else []) @
     concat (map validate_medication (medications p)) @
     concat (map (\<lambda>img. if url img = [] then [''Path `url` is required.''] else []) (images p)) @
     (case ocrConfidence p of
        None \<Rightarrow> []
      | Some c \<Rightarrow>
          if c < 0 then [''OCR confidence cannot be negative'']
          else if 100 < c then [''OCR confidence cannot exceed 100'']
          else []) @
     validate_date ''Prescription date is required'' (prescriptionDate p) @
     validate_date ''Prescription expiry date is required'' (expiryDate p) @
     (if refillsUsed p < 0 then [''Refills used cannot be negative''] else [])"

text \<open>The \<open>pre('save')\<close> hook of the schema. A missing or empty prescription number is
  falsy; a \<open>Date\<close> is truthy, a missing one is not.\<close>

definition pre_save :: "env \<Rightarrow> prescription \<Rightarrow> prescription" where
  "pre_save e p =
     (let p1 = (if prescriptionNumber p = None \<or> prescriptionNumber p = Some []
                then p\<lparr>prescriptionNumber := Some (generated_number e)\<rparr> else p)
      in case (expiryDate p1, prescriptionDate p1) of
           (None, Some d) \<Rightarrow> p1\<lparr>expiryDate := Some (plus_one_year (localTZA e) d)\<rparr>
         | _ \<Rightarrow> p1)"

text \<open>The collection of prescriptions, and the URLs that were passed to \<open>processOCR\<close>, in
  the order of the calls.\<close>

record rx_store =
  prescriptions_db :: "oid \<rightharpoonup> prescription"
  ocr_log :: "string list"

text \<open>\<open>document.save()\<close>. Mongoose validates the document first, by a hook of its own
  that runs before the hooks the schema registers with \<open>pre('save')\<close>: a document that
  fails a validator is rejected with a \<open>ValidationError\<close> and the schema's hook does not
  run. A valid document goes through the hook and is stored. The result is the document
  as the hook left it.\<close>

definition save ::
  "env \<Rightarrow> oid \<Rightarrow> prescription \<Rightarrow> rx_store \<Rightarrow> (app_error + prescription) \<times> rx_store" where
  "save e i p st =
     (case validate p of
        [] \<Rightarrow>
          (let p' = pre_save e p
           in (Inr p', st\<lparr>prescriptions_db := (prescriptions_db st)(i \<mapsto> p')\<rparr>))
      | message # messages \<Rightarrow> (Inl (ValidationError (message # messages)), st))"

definition processOCR :: "env \<Rightarrow> string \<Rightarrow> rx_store \<Rightarrow> (string \<times> int) option \<times> rx_store" where
  "processOCR e imageUrl st = (ocr e imageUrl, st\<lparr>ocr_log := ocr_log st @ [imageUrl]\<rparr>)"

record med_input =
  mi_name :: string
  mi_dosage :: string
  mi_frequency :: string
  mi_duration :: string
  mi_instructions :: "string option"
  mi_quantity :: int
  mi_refills :: "int option"

text \<open>The request of \<open>uploadPrescription\<close>: \<open>None\<close> is a field that is missing from the
  body. \<open>body_prescriptionDate\<close> is \<open>new Date(prescriptionDate)\<close> of the string in the
  body.\<close>

record upload_request =
  up_user :: oid
  doctorName :: "string option"
  doctorLicenseNumber :: "string option"
  body_medications :: "med_input list option"
  body_prescriptionDate :: "jsdate option"
  up_files :: "image list"

text \<open>A medication of the new document; the schema trims its strings.\<close>

definition new_medication :: "med_input \<Rightarrow> medication" where
  "new_medication med =
     \<lparr>med_name = trim (mi_name med), dosage = trim (mi_dosage med),
      frequency = trim (mi_frequency med), duration = trim (mi_duration med),
      med_instructions = map_option trim (mi_instructions med),
      quantity = mi_quantity med,
      refills = (case mi_refills med of None \<Rightarrow> 0 | Some r \<Rightarrow> r),
      med_product = None\<rparr>"

text \<open>The block "Process OCR if images are provided" of \<open>uploadPrescription\<close>, for the
  images \<open>imgs\<close> of the request and the created document \<open>p\<close>. Whatever is thrown inside
  \<open>try\<close>, by a \<open>save\<close> or by \<open>processOCR\<close>, is caught: the status is set and the document
  saved once more, and what that last \<open>save\<close> throws is not caught. The schema trims the
  extracted text.\<close>

definition process_images ::
  "env \<Rightarrow> oid \<Rightarrow> image list \<Rightarrow> prescription \<Rightarrow> rx_store
     \<Rightarrow> (app_error + prescription) \<times> rx_store" where
  "process_images e i imgs p st =
     (case imgs of
        [] \<Rightarrow> save e i (p\<lparr>pstatus := PendingVerification\<rparr>) st
      | first_image # others \<Rightarrow>
          (let p1 = p\<lparr>pstatus := Processing\<rparr>
           in case save e i p1 st of
                (Inl err, st1) \<Rightarrow> save e i (p1\<lparr>pstatus := PendingVerification\<rparr>) st1
              | (Inr p2, st1) \<Rightarrow>
                  (case processOCR e (url first_image) st1 of
                     (None, st2) \<Rightarrow> save e i (p2\<lparr>pstatus := PendingVerification\<rparr>) st2
                   | (Some (text, confidence), st2) \<Rightarrow>
                       (let p3 = p2\<lparr>extractedText := Some (trim text),
                                     ocrConfidence := Some confidence,
                                     pstatus := PendingVerification\<rparr>
                        in case save e i p3 st2 of
                             (Inl err, st3) \<Rightarrow>
                               save e i (p3\<lparr>pstatus := PendingVerification\<rparr>) st3
                           | (Inr p4, st3) \<Rightarrow> (Inr p4, st3)))))"

text \<open>The document that \<open>uploadPrescription\<close> gives to \<open>Prescription.create\<close>, with the
  strings trimmed as the schema says. It has no prescription number.\<close>

definition new_prescription ::
  "env \<Rightarrow> upload_request \<Rightarrow> string \<Rightarrow> string \<Rightarrow> med_input list \<Rightarrow> jsdate \<Rightarrow> prescription" where
  "new_prescription e req dn dl meds pdate =
     \<lparr>prescriptionNumber = None, patient = up_user req,
      doctor_name = trim dn, doctor_license = trim dl,
      medications = map new_medication meds,
      images = up_files req, extractedText = None, ocrConfidence = None,
      pstatus = Uploaded,
      verificationStatus =
        \<lparr>isVerified = False, verifiedBy = None, verifiedAt = None,
         verificationNotes = None, rejectionReason = None\<rparr>,
      prescriptionDate = Some pdate,
      expiryDate = Some (plus_one_year (localTZA e) pdate),
      refillsUsed = 0, orders = []\<rparr>"

text \<open>\<open>uploadPrescription\<close>. \<open>Prescription.create\<close> makes the document and saves it. The
  e-mails to the pharmacists, whose failure is logged and nothing more, are left out.\<close>

definition uploadPrescription ::
  "env \<Rightarrow> rx_store \<Rightarrow> upload_request \<Rightarrow> (app_error + prescription) \<times> rx_store" where
  "uploadPrescription e st req =
     (case (doctorName req, doctorLicenseNumber req, body_medications req,
            body_prescriptionDate req) of
        (Some dn, Some dl, Some meds, Some pdate) \<Rightarrow>
          if dn = [] \<or> dl = []
          then (Inl (AppError ''Missing required prescription information'' 400), st)
          else
            (case save e (new_id e) (new_prescription e req dn dl meds pdate) st of
               (Inl err, st1) \<Rightarrow> (Inl err, st1)
             | (Inr p, st1) \<Rightarrow> process_images e (new_id e) (up_files req) p st1)
      | _ \<Rightarrow> (Inl (AppError ''Missing required prescription information'' 400), st))"

text \<open>\<open>verifyPrescription\<close>. \<open>isApproved\<close> is the truth value of the field of the body.\<close>

record verify_request =
  vr_user :: oid
  isApproved :: bool
  vr_notes :: "string option"
  vr_rejectionReason :: "string option"

definition verifyPrescription ::
  "env \<Rightarrow> rx_store \<Rightarrow> oid \<Rightarrow> verify_request \<Rightarrow> (app_error + prescription) \<times> rx_store" where
  "verifyPrescription e st i req =
     (case prescriptions_db st i of
        None \<Rightarrow> (Inl (AppError ''Prescription not found'' 404), st)
      | Some p \<Rightarrow>
          if pstatus p = Verified
          then (Inl (AppError ''Prescription is already verified'' 400), st)
          else
            save e i
              (p\<lparr>verificationStatus :=
                   \<lparr>isVerified = isApproved req, verifiedBy = Some (vr_user req),
                    verifiedAt = Some (now e), verificationNotes = vr_notes req,
                    rejectionReason =
                      (if isApproved req then None else vr_rejectionReason req)\<rparr>,
                 pstatus := (if isApproved req then Verified else Rejected)\<rparr>) st)"



section \<open>OCR on the upload page\<close>

text \<open>
  \<open>processWithOCR\<close> of \<open>pages/PrescriptionUpload.jsx\<close>. A file is its name; \<open>recognize\<close> is
  \<open>worker.recognize\<close>, \<open>None\<close> when it throws; creating and terminating the worker are
  taken to succeed. The loop returns the text of all files, or \<open>None\<close> when a
  recognition threw, and the files it has passed to the worker.
\<close>

record page_state =
  files :: "string list"
  isProcessing :: bool
  page_extractedText :: string
  prescriptionData :: "page_data option"
  step :: nat



section \<open>Orders\<close>

text \<open>
  \<open>createOrder\<close> of \<open>controllers/orderController.js\<close>. Prices, tax and shipping are
  floating-point numbers that decide nothing here and are left out, as is the
  confirmation e-mail, whose failure is logged and nothing more.
\<close>

record product =
  prod_name :: string
  prod_isActive :: bool
  stock_quantity :: int
  stock_reserved :: int
  prescriptionRequired :: bool

record order_line =
  ol_product :: oid
  ol_quantity :: int
  ol_prescription :: "oid option"

record order_item =
  oi_product :: oid
  oi_name :: string
  oi_quantity :: int
  oi_prescription :: "oid option"
  oi_prescriptionRequired :: bool

text \<open>A prescription as the body of the request supplies it: its identifier and the
  names of its medications.\<close>

record supplied_prescription =
  sp_id :: oid
  sp_medications :: "string list"

record order =
  customer :: oid
  order_items :: "order_item list"
  order_prescriptions :: "oid list"
  order_status :: string

record shop =
  products :: "oid \<rightharpoonup> product"
  shop_orders :: "order list"
  carts :: "oid \<rightharpoonup> order_line list"

text \<open>The body of the request; \<open>None\<close> is a field that is missing. The shipping address
  is an object, which is truthy when it is there.\<close>

record order_request =
  or_user :: oid
  or_items :: "order_line list option"
  shippingAddress :: "string option"
  or_prescriptions :: "supplied_prescription list option"

text \<open>\<open>med.name.toLowerCase().includes(product.name.toLowerCase()) ||
  product.name.toLowerCase().includes(med.name.toLowerCase())\<close>\<close>

definition name_matches :: "string \<Rightarrow> string \<Rightarrow> bool" where
  "name_matches productName medName =
     (js_includes (toLowerCase medName) (toLowerCase productName) \<or>
      js_includes (toLowerCase productName) (toLowerCase medName))"

text \<open>\<open>prescriptions?.find(p => p.medications.some(...))\<close>\<close>

definition validPrescription ::
  "supplied_prescription list option \<Rightarrow> product \<Rightarrow> supplied_prescription option" where
  "validPrescription prescriptions product =
     (case prescriptions of
        None \<Rightarrow> None
      | Some ps \<Rightarrow>
          find (\<lambda>p. list_ex (\<lambda>med. name_matches (prod_name product) med) (sp_medications p)) ps)"

text \<open>The loop over the items: each item that passes its checks is pushed to
  \<open>orderItems\<close> and its quantity is added to the reserved stock of its product, which is
  saved at once.\<close>

fun items_loop ::
  "shop \<Rightarrow> supplied_prescription list option \<Rightarrow> order_line list \<Rightarrow> order_item list
     \<Rightarrow> (app_error + order_item list) \<times> shop" where
  "items_loop sh prescriptions [] orderItems = (Inr orderItems, sh)"
| "items_loop sh prescriptions (item # rest) orderItems =
     (case products sh (ol_product item) of
        None \<Rightarrow>
          (Inl (AppError (''Product '' @ ol_product item @ '' not found or inactive'') 400), sh)
      | Some product \<Rightarrow>
          if \<not> prod_isActive product
            then (Inl (AppError (''Product '' @ ol_product item @ '' not found or inactive'') 400),
                  sh)
          else if stock_quantity product < ol_quantity item
            then (Inl (AppError (''Insufficient stock for '' @ prod_name product) 400), sh)
          else if prescriptionRequired product \<and> validPrescription prescriptions product = None
            then (Inl (AppError (''Prescription required for '' @ prod_name product) 400), sh)
          else
            items_loop
              (sh\<lparr>products := (products sh)(ol_product item \<mapsto>
                    product\<lparr>stock_reserved := stock_reserved product + ol_quantity item\<rparr>)\<rparr>)
              prescriptions rest
              (orderItems @
                [\<lparr>oi_product = ol_product item, oi_name = prod_name product,
                  oi_quantity = ol_quantity item, oi_prescription = ol_prescription item,
                  oi_prescriptionRequired = prescriptionRequired product\<rparr>]))"

definition createOrder :: "shop \<Rightarrow> order_request \<Rightarrow> (app_error + order) \<times> shop" where
  "createOrder sh req =
     (case or_items req of
        None \<Rightarrow> (Inl (AppError ''Order must contain at least one item'' 400), sh)
      | Some items \<Rightarrow>
          if length items = 0
            then (Inl (AppError ''Order must contain at least one item'' 400), sh)
          else if shippingAddress req = None
            then (Inl (AppError ''Shipping address is required'' 400), sh)
          else
            (case items_loop sh (or_prescriptions req) items [] of
               (Inl err, sh1) \<Rightarrow> (Inl err, sh1)
             | (Inr orderItems, sh1) \<Rightarrow>
                 (let new_order =
                        \<lparr>customer = or_user req, order_items = orderItems,
                         order_prescriptions =
                           (case or_prescriptions req of
                              None \<Rightarrow> []
                            | Some ps \<Rightarrow> map sp_id ps),
                         order_status = ''pending''\<rparr>
                  in (Inr new_order,
                      sh1\<lparr>shop_orders := shop_orders sh1 @ [new_order],
                          carts :=
                            (case carts sh1 (or_user req) of
                               None \<Rightarrow> carts sh1
                             | Some cart \<Rightarrow> (carts sh1)(or_user req \<mapsto> []))\<rparr>))))"

section \<open>Notions used in the statements\<close>

text \<open>\<open>closes n r\<close>: every way through \<open>r\<close> passes the end of group \<open>n\<close>.\<close>

fun closes :: "nat \<Rightarrow> rx \<Rightarrow> bool" where
  "closes n (Grp m a) = (m = n \<or> closes n a)"
| "closes n (Seq a b) = (closes n a \<or> closes n b)"
| "closes n (Alt a b) = (closes n a \<and> closes n b)"
| "closes n Eps = False"
| "closes n Bol = False"
| "closes n (Atom p) = False"
| "closes n (Opt a) = False"
| "closes n (Star p) = False"
| "closes n (Plus p) = False"

fun item_closes :: "nat \<Rightarrow> item \<Rightarrow> bool" where
  "item_closes n (R r) = closes n r"
| "item_closes n (Close m s) = (m = n)"

text \<open>The first piece of \<open>line.split(/\s+/)\<close>, the part of a line after its label, and a
  line that begins with white space.\<close>

definition first_token :: "string \<Rightarrow> string" where
  "first_token line = takeWhile (\<lambda>x. \<not> is_space x) line"

definition after_label :: "string \<Rightarrow> string" where
  "after_label line = dropWhile is_space (drop 1 (dropWhile (\<lambda>x. x \<noteq> CHR '':'') line))"

definition starts_with_space :: "string \<Rightarrow> bool" where
  "starts_with_space line = (case line of [] \<Rightarrow> False | x # xs \<Rightarrow> is_space x)"

text \<open>The property \<open>statusCode\<close> of an error: an \<open>AppError\<close> has the one it was made with,
  a validation error of Mongoose has none.\<close>

fun statusCode :: "app_error \<Rightarrow> nat option" where
  "statusCode (AppError message code) = Some code"
| "statusCode (ValidationError messages) = None"

text \<open>One name contains the other, both in lower case: one is a run of consecutive
  characters of the other.\<close>

definition contains_either_way :: "string \<Rightarrow> string \<Rightarrow> bool" where
  "contains_either_way a b =
     (sublist (toLowerCase a) (toLowerCase b) \<or> sublist (toLowerCase b) (toLowerCase a))"




text \<open>Values for the concrete cases: a store with one verified prescription that has two
  images, a request to verify it again, an upload of a prescription of 29 February 2024
  with the same two images, an upload page with two files, and a shop with a product
  that requires a prescription and one that does not.\<close>

definition demo_env :: env where
  "demo_env =
     \<lparr>ocr = (\<lambda>imageUrl. Some (''Amoxicillin 250mg'', 90)), localTZA = (\<lambda>t isUTC. 0),
      generated_number = ''RX1709164800000AB12'', new_id = ''rx2'', now = 1709164800000\<rparr>"

definition demo_verified :: prescription where
  "demo_verified =
     \<lparr>prescriptionNumber = Some ''RX1'', patient = ''u1'', doctor_name = ''A. Rao'',
      doctor_license = ''LIC-12345'',
      medications =
        [\<lparr>med_name = ''Amoxicillin'', dosage = ''250mg'', frequency = ''Twice daily'',
          duration = ''7 days'', med_instructions = None, quantity = 14, refills = 1,
          med_product = None\<rparr>],
      images =
        [\<lparr>url = ''https://img/1.png'', publicId = ''1'', originalName = ''1.png'',
          img_size = 1000, mimeType = ''image/png''\<rparr>,
         \<lparr>url = ''https://img/2.png'', publicId = ''2'', originalName = ''2.png'',
          img_size = 1000, mimeType = ''image/png''\<rparr>],
      extractedText = None, ocrConfidence = None, pstatus = Verified,
      verificationStatus =
        \<lparr>isVerified = True, verifiedBy = Some ''ph1'', verifiedAt = Some 1709164800000,
         verificationNotes = None, rejectionReason = None\<rparr>,
      prescriptionDate = Some (Date 1706745600000),
      expiryDate = Some (Date 1738368000000), refillsUsed = 0, orders = []\<rparr>"

definition demo_store :: rx_store where
  "demo_store = \<lparr>prescriptions_db = [''rx1'' \<mapsto> demo_verified], ocr_log = []\<rparr>"

definition demo_verify :: verify_request where
  "demo_verify =
     \<lparr>vr_user = ''ph2'', isApproved = True, vr_notes = None, vr_rejectionReason = None\<rparr>"

definition demo_upload :: upload_request where
  "demo_upload =
     \<lparr>up_user = ''u1'', doctorName = Some ''A. Rao'', doctorLicenseNumber = Some ''LIC-12345'',
      body_medications =
        Some [\<lparr>mi_name = ''Amoxicillin'', mi_dosage = ''250mg'', mi_frequency = ''Twice daily'',
               mi_duration = ''7 days'', mi_instructions = None, mi_quantity = 14,
               mi_refills = None\<rparr>],
      body_prescriptionDate = Some (Date 1709164800000),
      up_files = images demo_verified\<rparr>"


definition demo_shop :: shop where
  "demo_shop =
     \<lparr>products =
        [''p1'' \<mapsto> \<lparr>prod_name = ''Amoxicillin 250mg'', prod_isActive = True,
                    stock_quantity = 10, stock_reserved = 0, prescriptionRequired = True\<rparr>,
         ''p2'' \<mapsto> \<lparr>prod_name = ''Vitamin C'', prod_isActive = True,
                    stock_quantity = 10, stock_reserved = 0, prescriptionRequired = False\<rparr>],
      shop_orders = [], carts = Map.empty\<rparr>"

definition demo_order :: "string \<Rightarrow> order_request" where
  "demo_order medName =
     \<lparr>or_user = ''u1'',
      or_items =
        Some [\<lparr>ol_product = ''p2'', ol_quantity = 1, ol_prescription = None\<rparr>,
              \<lparr>ol_product = ''p1'', ol_quantity = 2, ol_prescription = Some ''rx1''\<rparr>],
      shippingAddress = Some ''1 Main Street'',
      or_prescriptions = Some [\<lparr>sp_id = ''rx1'', sp_medications = [medName]\<rparr>]\<rparr>"

section \<open>Facts about strings and patterns\<close>

lemma js_includes_iff: "js_includes s k \<longleftrightarrow> (\<exists>ps ss. s = ps @ k @ ss)"
proof (induction s)
  case Nil
  then show ?case by auto
next
  case (Cons x xs)
  show ?case
  proof
    assume "js_includes (x # xs) k"
    then consider "prefix k (x # xs)" | "js_includes xs k" by auto
    then show "\<exists>ps ss. x # xs = ps @ k @ ss"
    proof cases
      case 1
      then obtain ss where "x # xs = k @ ss" by (auto simp: prefix_def)
      then have "x # xs = [] @ k @ ss" by simp
      then show ?thesis by blast
    next
      case 2
      with Cons obtain ps ss where "xs = ps @ k @ ss" by blast
      then have "x # xs = (x # ps) @ k @ ss" by simp
      then show ?thesis by blast
    qed
  next
    assume "\<exists>ps ss. x # xs = ps @ k @ ss"
    then obtain ps ss where e: "x # xs = ps @ k @ ss" by blast
    show "js_includes (x # xs) k"
    proof (cases ps)
      case Nil
      with e have "prefix k (x # xs)" by (simp add: prefix_def)
      then show ?thesis by simp
    next
      case (Cons p ps')
      with e have "xs = ps' @ k @ ss" by simp
      with Cons.IH have "js_includes xs k" by blast
      then show ?thesis by simp
    qed
  qed
qed

lemma run_closes:
  "run k i s c = Some (e, c') \<Longrightarrow> c n \<noteq> None \<or> list_ex (item_closes n) k \<Longrightarrow> c' n \<noteq> None"
proof (induction k i s c rule: run.induct)
  case (7 a b k i s c)
  then show ?case by (auto split: option.splits)
next
  case (8 a k i s c)
  then show ?case by (auto split: option.splits)
next
  case (10 p k i x xs c)
  then show ?case by (auto split: option.splits if_splits)
qed (auto split: if_splits)

lemma rx_exec_closes:
  "rx_exec r i s = Some m \<Longrightarrow> closes n r \<Longrightarrow> m_groups m n \<noteq> None"
proof (induction s arbitrary: i)
  case Nil
  then show ?case
    using run_closes[of "[R r]" i "[]" Map.empty _ _ n]
    by (auto split: option.splits)
next
  case (Cons x xs)
  then show ?case
    using run_closes[of "[R r]" i "x # xs" Map.empty _ _ n]
    by (auto split: option.splits)
qed

lemma extractDosage_total: "\<exists>d. extractDosage line = Inr d"
proof (cases "js_match line dosage_rx")
  case None
  then show ?thesis by (simp add: extractDosage_def)
next
  case (Some m)
  have "closes 2 dosage_rx" by (simp add: dosage_rx_def)
  with Some have "m_groups m 2 \<noteq> None"
    using rx_exec_closes unfolding js_match_def by blast
  then obtain u where "m_groups m 2 = Some u" by blast
  with Some show ?thesis by (simp add: extractDosage_def call_toLowerCase_def)
qed

lemma extractDuration_total: "\<exists>d. extractDuration line = Inr d"
proof (cases "js_match line duration_rx")
  case None
  then show ?thesis by (simp add: extractDuration_def)
next
  case (Some m)
  have "closes 2 duration_rx" by (simp add: duration_rx_def)
  with Some have "m_groups m 2 \<noteq> None"
    using rx_exec_closes unfolding js_match_def by blast
  then obtain u where "m_groups m 2 = Some u" by blast
  with Some show ?thesis by (simp add: extractDuration_def call_toLowerCase_def)
qed

lemma run_Star_end: "run [R (Star p)] i s c = Some (i + length (takeWhile p s), c)"
  by (induction s arbitrary: i) auto

lemma split_go_hd:
  "hd (split_go (Plus p) acc q s) = rev acc @ takeWhile (\<lambda>x. \<not> p x) s"
proof (induction "Plus p" acc q s rule: split_go.induct)
  case (1 acc q)
  then show ?case by simp
next
  case (2 acc q x xs)
  show ?case
  proof (cases "p x")
    case True
    then have r: "run [R (Plus p)] q (x # xs) Map.empty = Some (Suc q + length (takeWhile p xs), Map.empty)"
      by (simp add: run_Star_end)
    have ne: "Suc q + length (takeWhile p xs) \<noteq> q - length acc" by arith
    show ?thesis
      using True ne by (simp only: split_go.simps r option.case prod.case if_False list.sel takeWhile.simps) simp
  next
    case False
    then have r: "run [R (Plus p)] q (x # xs) Map.empty = None"
      by simp
    from 2(1)[OF r] False r show ?thesis by simp
  qed
qed

lemma split_go_nonempty: "split_go r acc q s \<noteq> []"
  by (induction r acc q s rule: split_go.induct) (auto split: option.splits)

lemma parts0: "(case split_rx line (Plus is_space) of [] \<Rightarrow> [] | part # rest \<Rightarrow> part) = first_token line"
proof (cases "line = []")
  case True
  then show ?thesis by (simp add: split_rx_def first_token_def)
next
  case False
  have "split_go (Plus is_space) [] 0 line \<noteq> []"
    by (rule split_go_nonempty)
  then obtain a b where ab: "split_go (Plus is_space) [] 0 line = a # b"
    by (cases "split_go (Plus is_space) [] 0 line") auto
  have "hd (split_go (Plus is_space) [] 0 line) = first_token line"
    by (simp add: split_go_hd first_token_def)
  with ab False show ?thesis by (simp add: split_rx_def)
qed

lemma run_label_tail:
  "run [R (Star (\<lambda>x. x \<noteq> CHR '':'')), R (Seq (Opt (Atom (\<lambda>x. x = CHR '':''))) (Star is_space))] i s c
     = Some (i + (length s - length (after_label s)), c)"
proof (induction s arbitrary: i)
  case Nil
  then show ?case by (simp add: after_label_def run_Star_end)
next
  case (Cons x xs)
  show ?case
  proof (cases "x = CHR '':''")
    case True
    have "length (dropWhile is_space xs) = length xs - length (takeWhile is_space xs)"
      by (simp add: dropWhile_eq_drop)
    moreover have "length (takeWhile is_space xs) \<le> length xs"
      by (rule length_takeWhile_le)
    ultimately show ?thesis using True
      by (simp add: after_label_def run_Star_end)
  next
    case False
    have "length (after_label xs) \<le> length xs"
      unfolding after_label_def
      by (metis (no_types, lifting) diff_le_self dropWhile_eq_drop length_drop le_trans)
    then have "Suc i + (length xs - length (after_label xs)) = i + (length (x # xs) - length (after_label xs))"
      by simp
    moreover have "after_label (x # xs) = after_label xs"
      using False by (simp add: after_label_def)
    ultimately show ?thesis using False Cons[of "Suc i"] by simp
  qed
qed

lemma after_label_drop: "drop (length s - length (after_label s)) s = after_label s"
proof -
  have "\<exists>n. after_label s = drop n s"
    unfolding after_label_def by (metis dropWhile_eq_drop drop_drop)
  then obtain n where n: "after_label s = drop n s" by blast
  show ?thesis
  proof (cases "n \<le> length s")
    case True
    then show ?thesis using n by simp
  next
    case False
    then show ?thesis using n by simp
  qed
qed

lemma rx_exec_hit:
  "run [R r] i s Map.empty = Some (j, c) \<Longrightarrow>
   rx_exec r i s = Some \<lparr>m_index = i, m_end = j, m_groups = c\<rparr>"
  by (cases s) simp_all

lemma replace_label: "replace_first line label_rx = after_label line"
proof -
  have "run [R label_rx] 0 line Map.empty = Some (length line - length (after_label line), Map.empty)"
    using run_label_tail[of 0 line Map.empty] by (simp add: label_rx_def)
  then have "rx_exec label_rx 0 line =
      Some \<lparr>m_index = 0, m_end = length line - length (after_label line), m_groups = Map.empty\<rparr>"
    by (rule rx_exec_hit)
  then show ?thesis
    by (simp add: replace_first_def after_label_drop)
qed

lemma extractField_find:
  "extractField lines keywords =
     map_option (\<lambda>line. trim (after_label line)) (find (has_keyword keywords) lines)"
  by (induction lines) (simp_all add: replace_label)

lemma page_extractField_find:
  "page_extractField lines keywords =
     (case find (has_keyword keywords) lines of
        None \<Rightarrow> ''Not detected''
      | Some line \<Rightarrow> trim (after_label line))"
  by (induction lines) (simp_all add: replace_label)

lemma no_colon_after_label: "CHR '':'' \<notin> set line \<Longrightarrow> after_label line = []"
proof -
  assume "CHR '':'' \<notin> set line"
  then have d: "dropWhile (\<lambda>x. x \<noteq> CHR '':'') line = []"
    by auto
  show ?thesis unfolding after_label_def d by simp
qed

lemma includes_nonempty: "js_includes s k \<Longrightarrow> k \<noteq> [] \<Longrightarrow> s \<noteq> []"
  by (cases s) auto

lemma has_medication_keyword_nonempty: "has_keyword medicationKeywords line \<Longrightarrow> line \<noteq> []"
  by (auto simp: has_keyword_def medicationKeywords_def toLowerCase_def dest!: includes_nonempty)

lemma first_token_empty_iff:
  "line \<noteq> [] \<Longrightarrow> first_token line = [] \<longleftrightarrow> starts_with_space line"
  by (cases line) (auto simp: first_token_def starts_with_space_def)

lemma medication_of_line_total:
  "\<exists>m. medication_of_line line = Inr m \<and> pm_name m = first_token line"
proof -
  obtain d where d: "extractDosage line = Inr d" using extractDosage_total by blast
  obtain u where u: "extractDuration line = Inr u" using extractDuration_total by blast
  show ?thesis
    by (simp add: medication_of_line_def d u parts0 Let_def)
qed

lemma medications_loop_entries:
  "\<exists>ms. medications_loop lines acc = Inr (acc @ ms) \<and>
        map pm_name ms =
          map first_token
            (filter (\<lambda>line. has_keyword medicationKeywords line \<and> \<not> starts_with_space line) lines)"
proof (induction lines arbitrary: acc)
  case Nil
  then show ?case by simp
next
  case (Cons line lines)
  show ?case
  proof (cases "has_keyword medicationKeywords line")
    case False
    then show ?thesis using Cons[of acc] by simp
  next
    case True
    then have ne: "line \<noteq> []" by (rule has_medication_keyword_nonempty)
    obtain m where m: "medication_of_line line = Inr m" "pm_name m = first_token line"
      using medication_of_line_total by blast
    show ?thesis
    proof (cases "starts_with_space line")
      case True
      then have "pm_name m = []" using m ne first_token_empty_iff by simp
      then show ?thesis using \<open>has_keyword medicationKeywords line\<close> True m Cons[of acc] by simp
    next
      case False
      then have n: "pm_name m \<noteq> []" using m ne first_token_empty_iff by simp
      obtain ms where ms: "medications_loop lines (acc @ [m]) = Inr ((acc @ [m]) @ ms)"
        "map pm_name ms = map first_token
            (filter (\<lambda>line. has_keyword medicationKeywords line \<and> \<not> starts_with_space line) lines)"
        using Cons[of "acc @ [m]"] by blast
      have "medications_loop (line # lines) acc = Inr (acc @ (m # ms))"
        using \<open>has_keyword medicationKeywords line\<close> m n ms by simp
      moreover have "map pm_name (m # ms) = map first_token
            (filter (\<lambda>line. has_keyword medicationKeywords line \<and> \<not> starts_with_space line) (line # lines))"
        using \<open>has_keyword medicationKeywords line\<close> False m ms by simp
      ultimately show ?thesis by blast
    qed
  qed
qed

lemma page_medications_loop_eq:
  "page_medications_loop lines acc =
     acc @ map trim (filter (has_keyword page_medicationKeywords) lines)"
  by (induction lines arbitrary: acc) simp_all

lemma find_None_list_ex: "\<not> list_ex P xs \<Longrightarrow> find P xs = None"
  by (induction xs) auto

section \<open>The parsers\<close>

text \<open>Claim C3: for the line "Amoxicillin 250mg tablet twice daily for 7 days" the
  medication extraction of the field parser yields one medication, with the dosage
  "250mg", the frequency "Twice daily" and the duration "7 days" (and the name
  "Amoxicillin").\<close>

theorem extractMedications_amoxicillin:
  "extractMedications (nonblank_lines ''Amoxicillin 250mg tablet twice daily for 7 days'') =
     Inr [\<lparr>pm_name = ''Amoxicillin'', pm_dosage = ''250mg'',
           pm_frequency = ''Twice daily'', pm_duration = ''7 days''\<rparr>]"
  by code_simp

text \<open>For the same line the parser of the upload page, which has no such fields,
  returns the line itself.\<close>

lemma page_medications_amoxicillin:
  "pg_medications (parsePrescriptionText ''Amoxicillin 250mg tablet twice daily for 7 days'') =
     [''Amoxicillin 250mg tablet twice daily for 7 days'']"
  by code_simp

text \<open>Claim C4, at a line without a colon: the text "Dr. John Smith" has one line, which
  includes the keyword "dr"; the pattern takes the whole line for the label, so both
  parsers return the empty string for the doctor, not the line.\<close>

theorem extractField_line_without_colon:
  "extractField (nonblank_lines ''Dr. John Smith'') doctor_keywords = Some []
   \<and> pg_doctorName (parsePrescriptionText ''Dr. John Smith'') = []"
  by code_simp

text \<open>Claim C5: the field parser returns a result for every text and never throws, and a
  field for which no line has a keyword is the sentinel: \<open>null\<close> in the OCR processor, "Not
  detected" on the upload page.\<close>

theorem parser_total:
  "\<exists>d. extractPrescriptionData text = Inr d \<and>
     (\<not> list_ex (has_keyword doctor_keywords) (nonblank_lines text) \<longrightarrow> pd_doctorName d = None) \<and>
     (\<not> list_ex (has_keyword patient_keywords) (nonblank_lines text) \<longrightarrow> pd_patientName d = None) \<and>
     (\<not> list_ex (has_keyword date_keywords) (nonblank_lines text) \<longrightarrow> pd_date d = None) \<and>
     (\<not> list_ex (has_keyword diagnosis_keywords) (nonblank_lines text) \<longrightarrow> pd_diagnosis d = None) \<and>
     (\<not> list_ex (has_keyword instructions_keywords) (nonblank_lines text) \<longrightarrow>
        pd_instructions d = None) \<and>
     (\<not> list_ex (has_keyword [''dr'', ''doctor'', ''physician'']) (nonblank_lines text) \<longrightarrow>
        pg_doctorName (parsePrescriptionText text) = ''Not detected'') \<and>
     (\<not> list_ex (has_keyword [''patient'', ''name'']) (nonblank_lines text) \<longrightarrow>
        pg_patientName (parsePrescriptionText text) = ''Not detected'') \<and>
     (\<not> list_ex (has_keyword [''date'']) (nonblank_lines text) \<longrightarrow>
        pg_date (parsePrescriptionText text) = ''Not detected'') \<and>
     (\<not> list_ex (has_keyword [''diagnosis'', ''condition'']) (nonblank_lines text) \<longrightarrow>
        pg_diagnosis (parsePrescriptionText text) = ''Not detected'') \<and>
     (\<not> list_ex (has_keyword [''instructions'', ''directions'']) (nonblank_lines text) \<longrightarrow>
        pg_instructions (parsePrescriptionText text) = ''Not detected'')"
proof -
  obtain ms where ms: "extractMedications (nonblank_lines text) = Inr ms"
    using medications_loop_entries[of "nonblank_lines text" "[]"]
    by (auto simp: extractMedications_def)
  show ?thesis
    by (simp add: extractPrescriptionData_def parsePrescriptionText_def ms Let_def
        extractField_find page_extractField_find find_None_list_ex)
qed

theorem parser_total_witness:
  "\<exists>d. extractPrescriptionData ''Take 5ml syrup'' = Inr d \<and> pd_doctorName d = None \<and>
     pd_patientName d = None \<and> pd_date d = None \<and> pd_diagnosis d = None \<and>
     pd_instructions d = None \<and>
     pg_doctorName (parsePrescriptionText ''Take 5ml syrup'') = ''Not detected'' \<and>
     pg_patientName (parsePrescriptionText ''Take 5ml syrup'') = ''Not detected'' \<and>
     pg_date (parsePrescriptionText ''Take 5ml syrup'') = ''Not detected'' \<and>
     pg_diagnosis (parsePrescriptionText ''Take 5ml syrup'') = ''Not detected'' \<and>
     pg_instructions (parsePrescriptionText ''Take 5ml syrup'') = ''Not detected''"
proof -
  have l: "nonblank_lines ''Take 5ml syrup'' = [''Take 5ml syrup'']" by code_simp
  have "\<not> has_keyword [''dr'', ''doctor'', ''physician''] ''Take 5ml syrup''" by code_simp
  moreover have "\<not> has_keyword [''patient'', ''name''] ''Take 5ml syrup''" by code_simp
  moreover have "\<not> has_keyword [''date''] ''Take 5ml syrup''" by code_simp
  moreover have "\<not> has_keyword [''instructions'', ''directions''] ''Take 5ml syrup''" by code_simp
  moreover have "\<not> has_keyword doctor_keywords ''Take 5ml syrup''" by code_simp
  moreover have "\<not> has_keyword patient_keywords ''Take 5ml syrup''" by code_simp
  moreover have "\<not> has_keyword date_keywords ''Take 5ml syrup''" by code_simp
  moreover have "\<not> has_keyword diagnosis_keywords ''Take 5ml syrup''" by code_simp
  moreover have "\<not> has_keyword instructions_keywords ''Take 5ml syrup''" by code_simp
  moreover have "\<not> has_keyword [''diagnosis'', ''condition''] ''Take 5ml syrup''" by code_simp
  ultimately show ?thesis
    using parser_total[of "''Take 5ml syrup''"] unfolding l by simp
qed

text \<open>Claim C6, as stated, fails in both parsers. The line " Amoxicillin 250mg" includes
  the keyword "mg", and the OCR processor's parser returns no medication for it, because
  the first piece of the split line is empty. The line "1 tab daily" includes the keyword
  "tab" of the set of eight, and the upload page's parser, whose set has six keywords,
  does not keep it.\<close>

theorem medication_line_dropped:
  "has_keyword medicationKeywords '' Amoxicillin 250mg'' \<and>
   extractMedications (nonblank_lines '' Amoxicillin 250mg'') = Inr [] \<and>
   has_keyword medicationKeywords ''1 tab daily'' \<and>
   page_extractMedications (nonblank_lines ''1 tab daily'') = [''No medications detected'']"
  by code_simp

text \<open>Claim C6, amended: the medications returned by the OCR processor's parser are, in
  order, one for each line that includes one of the eight keywords (in lower case) and
  does not begin with white space; the name of each is the first token of its line. The
  upload page's parser keeps, trimmed and in order, each line that includes one of its six
  keywords.\<close>

theorem extractMedications_lines:
  "(\<exists>ms. extractMedications lines = Inr ms \<and>
      map pm_name ms =
        map first_token
          (filter (\<lambda>line. has_keyword medicationKeywords line \<and> \<not> starts_with_space line)
             lines)) \<and>
   page_extractMedications lines =
     (let kept = map trim (filter (has_keyword page_medicationKeywords) lines)
      in if kept = [] then [''No medications detected''] else kept)"
proof -
  have "page_extractMedications lines =
     (let kept = map trim (filter (has_keyword page_medicationKeywords) lines)
      in if kept = [] then [''No medications detected''] else kept)"
    by (simp add: page_extractMedications_def page_medications_loop_eq Let_def)
  then show ?thesis
    using medications_loop_entries[of lines "[]"] by (simp add: extractMedications_def)
qed

text \<open>Claim C10: the medication extractor of the upload page never returns the empty list.
  With no line that includes a keyword, it returns the one entry "No medications
  detected"; otherwise it returns the trimmed lines that include one. Both are lists of
  strings: the sentinel stands where a medication line would.\<close>

theorem page_medications_sentinel:
  "pg_medications (parsePrescriptionText text) \<noteq> [] \<and>
   (\<not> list_ex (has_keyword page_medicationKeywords) (nonblank_lines text) \<longrightarrow>
      pg_medications (parsePrescriptionText text) = [''No medications detected'']) \<and>
   (list_ex (has_keyword page_medicationKeywords) (nonblank_lines text) \<longrightarrow>
      pg_medications (parsePrescriptionText text) =
        map trim (filter (has_keyword page_medicationKeywords) (nonblank_lines text)))"
  by (auto simp: parsePrescriptionText_def page_extractMedications_def page_medications_loop_eq
        Let_def filter_empty_conv list_ex_iff)

theorem page_medications_sentinel_witness:
  "pg_medications (parsePrescriptionText ''Rest and fluids'') = [''No medications detected''] \<and>
   pg_medications (parsePrescriptionText '' Aspirin 75mg '') = [''Aspirin 75mg'']"
proof -
  have a: "\<not> list_ex (has_keyword page_medicationKeywords) (nonblank_lines ''Rest and fluids'')"
    by code_simp
  have b: "list_ex (has_keyword page_medicationKeywords) (nonblank_lines '' Aspirin 75mg '')"
    by code_simp
  have c: "map trim (filter (has_keyword page_medicationKeywords) (nonblank_lines '' Aspirin 75mg ''))
      = [''Aspirin 75mg'']"
    by code_simp
  from page_medications_sentinel[of "''Rest and fluids''"] a
    page_medications_sentinel[of "'' Aspirin 75mg ''"] b c
  show ?thesis by simp
qed

section \<open>Dates: the year of a time value\<close>

lemma DayFromYear_1970: "DayFromYear 1970 = 0"
  by (simp add: DayFromYear_def)

lemma DaysInYear_range: "365 \<le> DaysInYear y \<and> DaysInYear y \<le> 366"
  by (simp add: DaysInYear_def)

lemma DayFromYear_upper: "0 \<le> n \<Longrightarrow> DayFromYear (1970 + n) \<le> 366 * n"
proof (induction n rule: int_ge_induct)
  case base
  then show ?case by (simp add: DayFromYear_1970)
next
  case (step i)
  have "DayFromYear (1970 + i + 1) = DayFromYear (1970 + i) + DaysInYear (1970 + i)"
    by (rule DayFromYear_Suc)
  moreover have "1970 + (i + 1) = 1970 + i + 1" by simp
  ultimately show ?case using step DaysInYear_range[of "1970 + i"] by simp
qed

lemma DayFromYear_lower: "n \<le> 0 \<Longrightarrow> DayFromYear (1970 + n) \<le> 365 * n"
proof (induction n rule: int_le_induct)
  case base
  then show ?case by (simp add: DayFromYear_1970)
next
  case (step i)
  have "DayFromYear (1970 + (i - 1) + 1) = DayFromYear (1970 + (i - 1)) + DaysInYear (1970 + (i - 1))"
    by (rule DayFromYear_Suc)
  moreover have "1970 + (i - 1) + 1 = 1970 + i" by simp
  ultimately show ?case using step DaysInYear_range[of "1970 + (i - 1)"] by simp
qed

lemma year_up_bounds:
  "DayFromYear y \<le> d \<Longrightarrow>
   DayFromYear (year_up d y) \<le> d \<and> d < DayFromYear (year_up d y + 1)"
proof (induction d y rule: year_up.induct)
  case (1 d y)
  show ?case
  proof (cases "DayFromYear (y + 1) \<le> d")
    case True
    then have "year_up d y = year_up d (y + 1)" by (subst year_up.simps) simp
    with 1(1)[OF True True] show ?thesis by simp
  next
    case False
    then have "year_up d y = y" by (subst year_up.simps) simp
    with False 1(2) show ?thesis by simp
  qed
qed

text \<open>\<open>YearFromTime\<close> is the year whose days include the day of \<open>t\<close>.\<close>

lemma YearFromTime_bounds:
  "DayFromYear (YearFromTime t) \<le> Day t \<and> Day t < DayFromYear (YearFromTime t + 1)"
proof -
  let ?d = "Day t"
  let ?n = "if 0 \<le> ?d then ?d div 366 else ?d div 365"
  have "DayFromYear (1970 + ?n) \<le> ?d"
  proof (cases "0 \<le> ?d")
    case True
    then have n: "0 \<le> ?d div 366" by simp
    have "366 * (?d div 366) \<le> ?d"
      using mult_div_mod_eq[of 366 ?d] pos_mod_sign[of 366 ?d] by linarith
    with DayFromYear_upper[OF n] True show ?thesis by simp
  next
    case False
    then have "?d div 365 < 0" by (simp add: div_neg_pos_less0)
    then have n: "?d div 365 \<le> 0" by simp
    have "365 * (?d div 365) \<le> ?d"
      using mult_div_mod_eq[of 365 ?d] pos_mod_sign[of 365 ?d] by linarith
    with DayFromYear_lower[OF n] False show ?thesis by simp
  qed
  from year_up_bounds[OF this] show ?thesis
    by (simp add: YearFromTime_def Let_def)
qed

lemma DayWithinYear_range:
  "0 \<le> DayWithinYear t \<and> DayWithinYear t < DaysInYear (YearFromTime t)"
  using YearFromTime_bounds[of t] DayFromYear_Suc[of "YearFromTime t"]
  by (simp add: DayWithinYear_def)

text \<open>On a host whose local time is UTC, 29 February 2024 becomes 1 March 2025.\<close>

lemma plus_one_year_leap_day:
  "plus_one_year (\<lambda>t isUTC. 0) (Date 1709164800000) = Date 1740787200000"
  by code_simp

section \<open>Facts about the operations\<close>

lemma validate_pstatus [simp]: "validate (p\<lparr>pstatus := x\<rparr>) = validate p"
  by (simp add: validate_def)


text \<open>What the hook alone would do with a document that has a prescription date and no
  expiry date.\<close>

lemma pre_save_default:
  "expiryDate p = None \<Longrightarrow> prescriptionDate p = Some d \<Longrightarrow>
   expiryDate (pre_save e p) = Some (plus_one_year (localTZA e) d)"
  by (simp add: pre_save_def Let_def)












lemma name_matches_iff: "name_matches a b \<longleftrightarrow> contains_either_way a b"
  by (simp add: name_matches_def contains_either_way_def js_includes_iff sublist_def)

lemma validPrescription_reserved [simp]:
  "validPrescription ps (product\<lparr>stock_reserved := x\<rparr>) = validPrescription ps product"
  by (cases ps) (simp_all add: validPrescription_def)

lemma items_loop_orders:
  "shop_orders (snd (items_loop sh ps items acc)) = shop_orders sh"
  by (induction sh ps items acc rule: items_loop.induct) (auto split: option.splits)

lemma items_loop_gate:
  "item \<in> set items \<Longrightarrow>
   \<exists>product. products sh (ol_product item) = Some product \<and> prescriptionRequired product
      \<and> validPrescription ps product = None \<Longrightarrow>
   \<exists>err. fst (items_loop sh ps items acc) = Inl err"
proof (induction sh ps items acc rule: items_loop.induct)
  case (1 sh ps acc)
  then show ?case by simp
next
  case (2 sh ps x rest acc)
  show ?case
  proof (cases "products sh (ol_product x)")
    case None
    then show ?thesis by simp
  next
    case (Some px)
    show ?thesis
    proof (cases "\<not> prod_isActive px \<or> stock_quantity px < ol_quantity x \<or>
                  (prescriptionRequired px \<and> validPrescription ps px = None)")
      case True
      then show ?thesis using Some by auto
    next
      case False
      then have cont: "items_loop sh ps (x # rest) acc =
          items_loop
            (sh\<lparr>products := (products sh)(ol_product x \<mapsto>
                  px\<lparr>stock_reserved := stock_reserved px + ol_quantity x\<rparr>)\<rparr>)
            ps rest
            (acc @ [\<lparr>oi_product = ol_product x, oi_name = prod_name px,
                  oi_quantity = ol_quantity x, oi_prescription = ol_prescription x,
                  oi_prescriptionRequired = prescriptionRequired px\<rparr>])"
        using Some by auto
      from 2(3) obtain product where pr: "products sh (ol_product item) = Some product"
        "prescriptionRequired product" "validPrescription ps product = None" by blast
      have "item \<noteq> x"
      proof
        assume "item = x"
        with pr Some have "px = product" by simp
        with pr False show False by simp
      qed
      with 2(2) have mem: "item \<in> set rest" by simp
      have "\<exists>product. products
              (sh\<lparr>products := (products sh)(ol_product x \<mapsto>
                  px\<lparr>stock_reserved := stock_reserved px + ol_quantity x\<rparr>)\<rparr>)
              (ol_product item) = Some product \<and> prescriptionRequired product
            \<and> validPrescription ps product = None"
      proof (cases "ol_product item = ol_product x")
        case True
        with pr Some have "px = product" by simp
        with pr True show ?thesis by simp
      next
        case False
        with pr show ?thesis by simp
      qed
      from 2(1)[OF Some _ _ _ mem this] False cont show ?thesis by auto
    qed
  qed
qed

lemma validPrescription_None:
  assumes "\<forall>p\<in>set (case ps of None \<Rightarrow> [] | Some l \<Rightarrow> l).
             \<forall>med\<in>set (sp_medications p). \<not> contains_either_way (prod_name product) med"
  shows "validPrescription ps product = None"
proof (cases ps)
  case None
  then show ?thesis by (simp add: validPrescription_def)
next
  case (Some l)
  with assms show ?thesis
    by (auto simp: validPrescription_def find_None_iff list_ex_iff name_matches_iff)
qed

section \<open>Verification, OCR and expiry\<close>

text \<open>Claim C2, as stated, fails: verifying the verified prescription of the store again
  is rejected with the status code 400, not 409.\<close>

theorem verify_again_status_not_409:
  "\<exists>err. fst (verifyPrescription demo_env demo_store ''rx1'' demo_verify) = Inl err \<and>
         statusCode err = Some 400 \<and> statusCode err \<noteq> Some 409"
  by (simp add: verifyPrescription_def demo_store_def demo_verified_def)

text \<open>Claim C2, amended: the verify operation on a prescription whose status is
  \<open>verified\<close> is rejected with the error "Prescription is already verified" and the status
  code 400, and the store is left as it was.\<close>

theorem verify_already_verified:
  "prescriptions_db st i = Some p \<Longrightarrow> pstatus p = Verified \<Longrightarrow>
   verifyPrescription e st i req = (Inl (AppError ''Prescription is already verified'' 400), st)"
  by (simp add: verifyPrescription_def)

theorem verify_already_verified_witness:
  "verifyPrescription demo_env demo_store ''rx1'' demo_verify =
     (Inl (AppError ''Prescription is already verified'' 400), demo_store)"
proof -
  have a: "prescriptions_db demo_store ''rx1'' = Some demo_verified"
    by (simp add: demo_store_def)
  have b: "pstatus demo_verified = Verified" by (simp add: demo_verified_def)
  show ?thesis using verify_already_verified[OF a b] .
qed




text \<open>Claim C8, at a document without an expiry date: the validation rejects it before the
  hook that would set the expiry date runs, and nothing is stored. The upload of a
  prescription of 29 February 2024 is rejected in the same way, because the request gives
  the new document no prescription number, which the hook would have made.\<close>

theorem expiry_default_rejected:
  "save demo_env ''rx3'' (demo_verified\<lparr>expiryDate := None\<rparr>) demo_store =
     (Inl (ValidationError [''Prescription expiry date is required'']), demo_store)
   \<and> uploadPrescription demo_env demo_store demo_upload =
     (Inl (ValidationError [''Prescription number is required'']), demo_store)"
proof -
  have a: "validate (demo_verified\<lparr>expiryDate := None\<rparr>) =
      [''Prescription expiry date is required'']"
    by code_simp
  have b: "validate
      (new_prescription demo_env demo_upload ''A. Rao'' ''LIC-12345''
        [\<lparr>mi_name = ''Amoxicillin'', mi_dosage = ''250mg'', mi_frequency = ''Twice daily'',
          mi_duration = ''7 days'', mi_instructions = None, mi_quantity = 14,
          mi_refills = None\<rparr>] (Date 1709164800000)) =
      [''Prescription number is required'']"
    by code_simp
  have c: "uploadPrescription demo_env demo_store demo_upload =
     (Inl (ValidationError [''Prescription number is required'']), demo_store)"
    using b by (simp add: uploadPrescription_def demo_upload_def save_def)
  show ?thesis using a c by (simp add: save_def)
qed

section \<open>The gate of the orders\<close>

text \<open>Claim C1: when the cart has a line whose product requires a prescription, and no
  medication name of any supplied prescription contains the product name or is contained
  in it (both in lower case), creating the order fails, and the orders are what they
  were: no order is created.\<close>

theorem order_gate:
  assumes "or_items req = Some items" "item \<in> set items"
    "products sh (ol_product item) = Some product" "prescriptionRequired product"
    "\<forall>p\<in>set (case or_prescriptions req of None \<Rightarrow> [] | Some l \<Rightarrow> l).
       \<forall>med\<in>set (sp_medications p). \<not> contains_either_way (prod_name product) med"
  shows "(\<exists>err. fst (createOrder sh req) = Inl err) \<and>
         shop_orders (snd (createOrder sh req)) = shop_orders sh"
proof -
  have v: "validPrescription (or_prescriptions req) product = None"
    using assms(5) by (rule validPrescription_None)
  obtain err where err: "fst (items_loop sh (or_prescriptions req) items []) = Inl err"
    using items_loop_gate[OF assms(2), of sh "or_prescriptions req" "[]"] assms(3,4) v by blast
  obtain sh1 where l: "items_loop sh (or_prescriptions req) items [] = (Inl err, sh1)"
    using err by (cases "items_loop sh (or_prescriptions req) items []") auto
  have o: "shop_orders sh1 = shop_orders sh"
    using items_loop_orders[of sh "or_prescriptions req" items "[]"] l by simp
  show ?thesis
    using assms(1) l o by (auto simp: createOrder_def)
qed

theorem order_gate_witness:
  "(\<exists>err. fst (createOrder demo_shop (demo_order ''Ibuprofen'')) = Inl err) \<and>
   shop_orders (snd (createOrder demo_shop (demo_order ''Ibuprofen''))) = []"
proof -
  have n: "\<not> name_matches ''Amoxicillin 250mg'' ''Ibuprofen''" by code_simp
  have a: "or_items (demo_order ''Ibuprofen'') =
      Some [\<lparr>ol_product = ''p2'', ol_quantity = 1, ol_prescription = None\<rparr>,
            \<lparr>ol_product = ''p1'', ol_quantity = 2, ol_prescription = Some ''rx1''\<rparr>]"
    by (simp add: demo_order_def)
  have b: "\<lparr>ol_product = ''p1'', ol_quantity = 2, ol_prescription = Some ''rx1''\<rparr>
      \<in> set [\<lparr>ol_product = ''p2'', ol_quantity = 1, ol_prescription = None\<rparr>,
              \<lparr>ol_product = ''p1'', ol_quantity = 2, ol_prescription = Some ''rx1''\<rparr>]"
    by simp
  have c: "products demo_shop
      (ol_product \<lparr>ol_product = ''p1'', ol_quantity = 2, ol_prescription = Some ''rx1''\<rparr>) =
      Some \<lparr>prod_name = ''Amoxicillin 250mg'', prod_isActive = True,
            stock_quantity = 10, stock_reserved = 0, prescriptionRequired = True\<rparr>"
    by (simp add: demo_shop_def)
  have d: "prescriptionRequired \<lparr>prod_name = ''Amoxicillin 250mg'', prod_isActive = True,
            stock_quantity = 10, stock_reserved = 0, prescriptionRequired = True\<rparr>"
    by simp
  have e: "\<forall>p\<in>set (case or_prescriptions (demo_order ''Ibuprofen'') of None \<Rightarrow> [] | Some l \<Rightarrow> l).
       \<forall>med\<in>set (sp_medications p). \<not> contains_either_way
          (prod_name \<lparr>prod_name = ''Amoxicillin 250mg'', prod_isActive = True,
            stock_quantity = 10, stock_reserved = 0, prescriptionRequired = True\<rparr>) med"
    using n by (simp add: demo_order_def name_matches_iff)
  have f: "shop_orders demo_shop = []" by (simp add: demo_shop_def)
  show ?thesis using order_gate[OF a b c d e] f by simp
qed

text \<open>The same cart with a prescription for "Amoxicillin" is accepted. In the rejected
  cart the line before the rejected one has reserved its stock all the same.\<close>

lemma order_accepted:
  "\<exists>ord. fst (createOrder demo_shop (demo_order ''Amoxicillin'')) = Inr ord"
proof -
  have n: "name_matches ''Amoxicillin 250mg'' ''Amoxicillin''" by code_simp
  show ?thesis
    by (simp add: createOrder_def demo_order_def demo_shop_def 
        validPrescription_def n Let_def)
qed

lemma failed_order_keeps_reservation:
  "map_option stock_reserved
     (products (snd (createOrder demo_shop (demo_order ''Ibuprofen''))) ''p2'') = Some 1"
proof -
  have n: "\<not> name_matches ''Amoxicillin 250mg'' ''Ibuprofen''" by code_simp
  show ?thesis
    by (simp add: createOrder_def demo_order_def demo_shop_def 
        validPrescription_def n)
qed

section \<open>Remaining refills\<close>

lemma foldl_refills_sum:
  "foldl (\<lambda>total med. total + refills med) a ms = a + sum_list (map refills ms)"
  by (induction ms arbitrary: a) simp_all

text \<open>Claim C9: for every prescription record, \<open>remainingRefills\<close> is the larger of 0 and
  the sum of the medications' refills minus \<open>refillsUsed\<close>; so it is never negative, however
  large \<open>refillsUsed\<close> is.\<close>

theorem remainingRefills_max_nonneg:
  "remainingRefills p = max 0 (sum_list (map refills (medications p)) - refillsUsed p)
   \<and> 0 \<le> remainingRefills p"
  by (simp add: remainingRefills_def foldl_refills_sum)

end
